theory Spec2Isabelle
  imports Complex_Main "HOL-Library.Log_Nat"
begin

section \<open>JavaScript values\<close>

text \<open>
  The payloads of checkouts and orders are JavaScript values: JSON data as it arrives
  through \<^verbatim>\<open>c.req.json()\<close> (null, booleans, numbers, strings, arrays, objects), and
  \<^verbatim>\<open>undefined\<close>, which a property of a payload built by the callers may hold and which
  a property read gives for a missing property. An object is the list of its properties
  in insertion order. \<open>JNumber n\<close> is the number \<open>n\<close>; the payloads here hold integers.
\<close>

datatype json =
    JNull
  | JBool bool
  | JNumber int
  | JString string
  | JArray "json list"
  | JObject "(string \<times> json) list"
  | JUndefined

text \<open>
  \<^verbatim>\<open>JSON.stringify\<close> and \<^verbatim>\<open>JSON.parse\<close> are built-ins of the platform, not code of
  the repository: the functions below take them as the parameter \<open>JSON\<close>. \<open>stringify\<close>
  returns \<open>None\<close> where \<^verbatim>\<open>JSON.stringify\<close> returns \<^verbatim>\<open>undefined\<close>, \<open>parse\<close> returns
  \<open>None\<close> where \<^verbatim>\<open>JSON.parse\<close> throws a SyntaxError.
\<close>

record JSON =
  stringify :: "json \<Rightarrow> string option"
  parse :: "string \<Rightarrow> json option"

subsection \<open>Numbers\<close>

text \<open>
  A JavaScript number and an SQLite REAL are IEEE binary64 values. A finite one is given
  by its exact value, a rational; the results of arithmetic are rounded to the nearest
  double, ties to the even significand. Every finite double is a multiple of \<open>2\<^sup>-\<^sup>1\<^sup>0\<^sup>7\<^sup>4\<close>;
  around \<open>x\<close> the doubles are the multiples of \<open>2 ^ ulp_exponent x / 2 ^ 1074\<close>, which
  keeps 53 significant bits.
\<close>

definition round_half_even :: "rat \<Rightarrow> int" where
  "round_half_even r =
     (let n = \<lfloor>r\<rfloor>; d = r - of_int n
      in if d < 1 / 2 then n else if 1 / 2 < d then n + 1 else if even n then n else n + 1)"

definition dropped_bits :: "int \<Rightarrow> nat" where
  "dropped_bits t = nat (bitlen t - 53)"

definition binary64_scale :: rat where
  "binary64_scale = 2 ^ 1074"

definition ulp_exponent :: "rat \<Rightarrow> nat" where
  "ulp_exponent x = dropped_bits \<lfloor>\<bar>x\<bar> * binary64_scale\<rfloor>"

definition nearest_double :: "rat \<Rightarrow> rat" where
  "nearest_double x =
     (let u = 2 ^ ulp_exponent x / binary64_scale in of_int (round_half_even (x / u)) * u)"


datatype number = Finite rat | PosInfinity | NegInfinity | NaN

text \<open>The double that an exact result is rounded to; beyond the largest double, an infinity.\<close>

definition to_number :: "rat \<Rightarrow> number" where
  "to_number x =
     (let y = nearest_double x
      in if 2 ^ 1024 \<le> y then PosInfinity
         else if y \<le> - (2 ^ 1024) then NegInfinity
         else Finite y)"



text \<open>\<^verbatim>\<open>Number.MAX_SAFE_INTEGER\<close>\<close>

definition MAX_SAFE_INTEGER :: int where
  "MAX_SAFE_INTEGER = 2 ^ 53 - 1"

definition safe_integer :: "int \<Rightarrow> bool" where
  "safe_integer i \<longleftrightarrow> - MAX_SAFE_INTEGER \<le> i \<and> i \<le> MAX_SAFE_INTEGER"

section \<open>The storage client (data/db)\<close>

text \<open>
  The values of the column \<^verbatim>\<open>quantity INTEGER DEFAULT 0\<close>: NULL, a 64-bit integer, or
  a REAL (a finite double or an infinity). Text and blobs in this column are not
  modelled: the code writes numbers only.
\<close>

datatype sql_value = Null | Integer int | Real rat | RealPosInf | RealNegInf

text \<open>
  The client binds a JavaScript number as a REAL. With a REAL operand SQLite computes in
  double arithmetic, an INTEGER operand converted to the nearest double; NULL gives NULL.
\<close>

fun sql_as_real :: "sql_value \<Rightarrow> number option" where
  "sql_as_real Null = None"
| "sql_as_real (Integer i) = Some (to_number (of_int i))"
| "sql_as_real (Real r) = Some (Finite r)"
| "sql_as_real RealPosInf = Some PosInfinity"
| "sql_as_real RealNegInf = Some NegInfinity"

fun real_plus :: "number \<Rightarrow> rat \<Rightarrow> number" where
  "real_plus (Finite x) q = to_number (x + q)"
| "real_plus n q = n"

fun real_minus :: "number \<Rightarrow> rat \<Rightarrow> number" where
  "real_minus (Finite x) q = to_number (x - q)"
| "real_minus n q = n"

text \<open>
  INTEGER affinity of the column: a REAL that is an integer strictly between \<open>-2\<^sup>6\<^sup>3\<close> and
  \<open>2\<^sup>6\<^sup>3\<close> is stored as that INTEGER, any other REAL as it is; SQLite stores a NaN as NULL.
\<close>

fun column_affinity :: "number \<Rightarrow> sql_value" where
  "column_affinity (Finite y) =
     (if of_int \<lfloor>y\<rfloor> = y \<and> - (2 ^ 63) < y \<and> y < 2 ^ 63 then Integer \<lfloor>y\<rfloor> else Real y)"
| "column_affinity PosInfinity = RealPosInf"
| "column_affinity NegInfinity = RealNegInf"
| "column_affinity NaN = Null"

text \<open>\<^verbatim>\<open>quantity + ?\<close> and \<^verbatim>\<open>quantity - ?\<close> as the column stores them.\<close>

definition sql_plus :: "sql_value \<Rightarrow> rat \<Rightarrow> sql_value" where
  "sql_plus v q = (case sql_as_real v of None \<Rightarrow> Null | Some n \<Rightarrow> column_affinity (real_plus n q))"

definition sql_minus :: "sql_value \<Rightarrow> rat \<Rightarrow> sql_value" where
  "sql_minus v q = (case sql_as_real v of None \<Rightarrow> Null | Some n \<Rightarrow> column_affinity (real_minus n q))"

text \<open>\<^verbatim>\<open>quantity >= ?\<close>: SQLite compares an INTEGER with a REAL exactly; NULL is not true.\<close>

fun sql_ge :: "sql_value \<Rightarrow> rat \<Rightarrow> bool" where
  "sql_ge Null q = False"
| "sql_ge (Integer i) q = (q \<le> of_int i)"
| "sql_ge (Real r) q = (q \<le> r)"
| "sql_ge RealPosInf q = True"
| "sql_ge RealNegInf q = False"

text \<open>The tables of \<^verbatim>\<open>initDbs\<close> that live behind \<^verbatim>\<open>transactionsClient\<close>.\<close>

datatype table = Inventory | Checkouts | Orders | Request_logs | Idempotency_keys

record checkout_row =
  status :: string
  data :: string


text \<open>A row of \<^verbatim>\<open>idempotency_keys\<close> without its key: request_hash, response_status, response_body.\<close>

type_synonym idempotency_row = "string \<times> int \<times> string"

text \<open>An argument of a statement as the client binds it: NULL, an INTEGER, a REAL or a text.\<close>

datatype bound_arg = Bound_null | Bound_integer int | Bound_real rat | Bound_text string

text \<open>
  A row of \<^verbatim>\<open>request_logs\<close>; \<open>http_method\<close> is its column \<^verbatim>\<open>method\<close>. Its
  \<^verbatim>\<open>id\<close> (AUTOINCREMENT) is the position in the list; the \<^verbatim>\<open>timestamp\<close> column is
  filled by the database clock and is not modelled. The column \<^verbatim>\<open>checkout_id\<close> is
  given by the argument bound to it; the code never reads this table.
\<close>

record AuditEntry =
  http_method :: string
  url :: string
  checkout_id :: bound_arg
  payload :: string

text \<open>
  The client holds the rows of each table, keyed by the PRIMARY KEY of the schema.
  \<^verbatim>\<open>db.execute\<close> returns a promise that may reject (table missing, database
  unreachable, ...): \<open>rejects\<close> says for which tables the storage refuses statements.
\<close>

record Client =
  inventory :: "string \<rightharpoonup> sql_value"
  checkouts :: "string \<rightharpoonup> checkout_row"
  orders :: "string \<rightharpoonup> string"
  request_logs :: "AuditEntry list"
  idempotency_keys :: "string \<rightharpoonup> idempotency_row"
  rejects :: "table \<Rightarrow> bool"

text \<open>
  The exceptions: the two of \<^verbatim>\<open>getTransactionsDb\<close> and \<^verbatim>\<open>db.execute\<close>, the
  RangeError of the client for a number it cannot pass or return, and the TypeError of the
  client for a value it cannot bind and of the language for a property of
  \<^verbatim>\<open>null\<close> or of a primitive.
\<close>

datatype error =
    ClientNotInitialized
  | ExecuteRejected table
  | RangeError
  | TypeError

record 'r ResultSet =
  rows :: "'r list"
  rowsAffected :: nat

text \<open>
  Every function takes the module variable \<^verbatim>\<open>transactionsClient\<close> (\<open>None\<close> is
  \<^verbatim>\<open>null\<close>: \<^verbatim>\<open>initDbs\<close> has not run) and returns its outcome, \<open>Inl\<close> an exception,
  together with the module variable afterwards.
\<close>

type_synonym 'a outcome = "(error + 'a) \<times> Client option"

definition getTransactionsDb :: "Client option \<Rightarrow> error + Client" where
  "getTransactionsDb transactionsClient =
     (case transactionsClient of
        None \<Rightarrow> Inl ClientNotInitialized
      | Some c \<Rightarrow> Inr c)"

text \<open>
  \<^verbatim>\<open>db.execute\<close>: a statement is the function it computes on the tables; a rejected
  statement changes nothing.
\<close>

definition execute ::
  "Client \<Rightarrow> table \<Rightarrow> (Client \<Rightarrow> 'r ResultSet \<times> Client) \<Rightarrow> (error + 'r ResultSet) \<times> Client" where
  "execute db t stmt =
     (if rejects db t then (Inl (ExecuteRejected t), db)
      else (case stmt db of (rs, db') \<Rightarrow> (Inr rs, db')))"

text \<open>
  The client converts the arguments before it runs the statement: a number that is not
  finite is refused with a RangeError, \<^verbatim>\<open>undefined\<close>, arrays and objects with a
  TypeError; a number is passed as a REAL, \<^verbatim>\<open>true\<close> and \<^verbatim>\<open>false\<close> as the
  integers 1 and 0.
\<close>

fun valueToSql :: "number \<Rightarrow> error + rat" where
  "valueToSql (Finite x) = Inr x"
| "valueToSql n = Inl RangeError"

fun bind_value :: "json \<Rightarrow> error + bound_arg" where
  "bind_value JNull = Inr Bound_null"
| "bind_value (JBool b) = Inr (Bound_integer (if b then 1 else 0))"
| "bind_value (JNumber n) = Inr (Bound_real (of_int n))"
| "bind_value (JString s) = Inr (Bound_text s)"
| "bind_value (JArray xs) = Inl TypeError"
| "bind_value (JObject ps) = Inl TypeError"
| "bind_value JUndefined = Inl TypeError"

text \<open>
  \<^verbatim>\<open>Number(row.quantity)\<close>: the client returns an INTEGER as a number when it is a safe
  integer and throws a RangeError otherwise; a REAL is returned as it is, NULL as
  \<^verbatim>\<open>null\<close>, whose number is 0.
\<close>

fun Number_of_column :: "sql_value \<Rightarrow> error + number" where
  "Number_of_column Null = Inr (Finite 0)"
| "Number_of_column (Integer i) =
     (if safe_integer i then Inr (Finite (of_int i)) else Inl RangeError)"
| "Number_of_column (Real r) = Inr (Finite r)"
| "Number_of_column RealPosInf = Inr PosInfinity"
| "Number_of_column RealNegInf = Inr NegInfinity"

section \<open>Inventory (data/inventory)\<close>

text \<open>\<^verbatim>\<open>SELECT quantity FROM inventory WHERE product_id = ?\<close>\<close>

definition sql_select_quantity :: "string \<Rightarrow> Client \<Rightarrow> sql_value ResultSet \<times> Client" where
  "sql_select_quantity productId db =
     (\<lparr>rows = (case inventory db productId of None \<Rightarrow> [] | Some q \<Rightarrow> [q]), rowsAffected = 0\<rparr>, db)"

text \<open>\<^verbatim>\<open>UPDATE inventory SET quantity = quantity - ? WHERE product_id = ? AND quantity >= ?\<close>\<close>

definition sql_update_reserve :: "rat \<Rightarrow> string \<Rightarrow> rat \<Rightarrow> Client \<Rightarrow> unit ResultSet \<times> Client" where
  "sql_update_reserve dec productId least db =
     (case inventory db productId of
        None \<Rightarrow> (\<lparr>rows = [], rowsAffected = 0\<rparr>, db)
      | Some q \<Rightarrow>
          if sql_ge q least
          then (\<lparr>rows = [], rowsAffected = 1\<rparr>,
                db\<lparr>inventory := (inventory db)(productId \<mapsto> sql_minus q dec)\<rparr>)
          else (\<lparr>rows = [], rowsAffected = 0\<rparr>, db))"

text \<open>\<^verbatim>\<open>UPDATE inventory SET quantity = quantity + ? WHERE product_id = ?\<close>\<close>

definition sql_update_release :: "rat \<Rightarrow> string \<Rightarrow> Client \<Rightarrow> unit ResultSet \<times> Client" where
  "sql_update_release inc productId db =
     (case inventory db productId of
        None \<Rightarrow> (\<lparr>rows = [], rowsAffected = 0\<rparr>, db)
      | Some q \<Rightarrow>
          (\<lparr>rows = [], rowsAffected = 1\<rparr>,
           db\<lparr>inventory := (inventory db)(productId \<mapsto> sql_plus q inc)\<rparr>))"

text \<open>The result \<open>None\<close> is \<^verbatim>\<open>undefined\<close>.\<close>

definition getInventory :: "Client option \<Rightarrow> string \<Rightarrow> number option outcome" where
  "getInventory transactionsClient productId =
     (case getTransactionsDb transactionsClient of
        Inl e \<Rightarrow> (Inl e, transactionsClient)
      | Inr db \<Rightarrow>
          (case execute db Inventory (sql_select_quantity productId) of
             (Inl e, db') \<Rightarrow> (Inl e, Some db')
           | (Inr rs, db') \<Rightarrow>
               (case rows rs of
                  [] \<Rightarrow> (Inr None, Some db')
                | q # _ \<Rightarrow>
                    (case Number_of_column q of
                       Inl e \<Rightarrow> (Inl e, Some db')
                     | Inr n \<Rightarrow> (Inr (Some n), Some db')))))"

definition reserveStock :: "Client option \<Rightarrow> string \<Rightarrow> number \<Rightarrow> bool outcome" where
  "reserveStock transactionsClient productId quantity =
     (case getTransactionsDb transactionsClient of
        Inl e \<Rightarrow> (Inl e, transactionsClient)
      | Inr db \<Rightarrow>
          (case valueToSql quantity of
             Inl e \<Rightarrow> (Inl e, Some db)
           | Inr q \<Rightarrow>
               (case execute db Inventory (sql_update_reserve q productId q) of
                  (Inl e, db') \<Rightarrow> (Inl e, Some db')
                | (Inr rs, db') \<Rightarrow> (Inr (rowsAffected rs > 0), Some db'))))"

definition releaseStock :: "Client option \<Rightarrow> string \<Rightarrow> number \<Rightarrow> unit outcome" where
  "releaseStock transactionsClient productId quantity =
     (case getTransactionsDb transactionsClient of
        Inl e \<Rightarrow> (Inl e, transactionsClient)
      | Inr db \<Rightarrow>
          (case valueToSql quantity of
             Inl e \<Rightarrow> (Inl e, Some db)
           | Inr q \<Rightarrow>
               (case execute db Inventory (sql_update_release q productId) of
                  (Inl e, db') \<Rightarrow> (Inl e, Some db')
                | (Inr rs, db') \<Rightarrow> (Inr (), Some db'))))"

section \<open>Checkouts, orders, audit log and idempotency keys (data/transactions)\<close>



text \<open>\<^verbatim>\<open>INSERT INTO orders (id, data) VALUES (?, ?) ON CONFLICT(id) DO UPDATE SET data = EXCLUDED.data\<close>\<close>

definition sql_upsert_order :: "string \<Rightarrow> string \<Rightarrow> Client \<Rightarrow> unit ResultSet \<times> Client" where
  "sql_upsert_order orderId dataStr db =
     (\<lparr>rows = [], rowsAffected = 1\<rparr>, db\<lparr>orders := (orders db)(orderId \<mapsto> dataStr)\<rparr>)"

text \<open>\<^verbatim>\<open>SELECT data FROM orders WHERE id = ?\<close>\<close>

definition sql_select_order_data :: "string \<Rightarrow> Client \<Rightarrow> string ResultSet \<times> Client" where
  "sql_select_order_data orderId db =
     (\<lparr>rows = (case orders db orderId of None \<Rightarrow> [] | Some d \<Rightarrow> [d]), rowsAffected = 0\<rparr>, db)"

text \<open>\<^verbatim>\<open>INSERT INTO request_logs (method, url, checkout_id, payload) VALUES (?, ?, ?, ?)\<close>\<close>

definition sql_insert_request_log :: "AuditEntry \<Rightarrow> Client \<Rightarrow> unit ResultSet \<times> Client" where
  "sql_insert_request_log entry db =
     (\<lparr>rows = [], rowsAffected = 1\<rparr>, db\<lparr>request_logs := request_logs db @ [entry]\<rparr>)"





definition saveOrder :: "JSON \<Rightarrow> Client option \<Rightarrow> string \<Rightarrow> json \<Rightarrow> unit outcome" where
  "saveOrder JSON transactionsClient orderId orderObj =
     (case getTransactionsDb transactionsClient of
        Inl e \<Rightarrow> (Inl e, transactionsClient)
      | Inr db \<Rightarrow>
          (case stringify JSON orderObj of
             None \<Rightarrow> (Inl TypeError, Some db)
           | Some dataStr \<Rightarrow>
               (case execute db Orders (sql_upsert_order orderId dataStr) of
                  (Inl e, db') \<Rightarrow> (Inl e, Some db')
                | (Inr rs, db') \<Rightarrow> (Inr (), Some db'))))"

definition getOrder :: "JSON \<Rightarrow> Client option \<Rightarrow> string \<Rightarrow> json option outcome" where
  "getOrder JSON transactionsClient orderId =
     (case getTransactionsDb transactionsClient of
        Inl e \<Rightarrow> (Inl e, transactionsClient)
      | Inr db \<Rightarrow>
          (case execute db Orders (sql_select_order_data orderId) of
             (Inl e, db') \<Rightarrow> (Inl e, Some db')
           | (Inr rs, db') \<Rightarrow>
               (case rows rs of
                  d # _ \<Rightarrow>
                    (case parse JSON d of
                       Some v \<Rightarrow> (Inr (Some v), Some db')
                     | None \<Rightarrow> (Inr None, Some db'))
                | [] \<Rightarrow> (Inr None, Some db'))))"

text \<open>JavaScript truthiness: \<^verbatim>\<open>undefined\<close>, \<^verbatim>\<open>null\<close>, \<^verbatim>\<open>false\<close>, \<^verbatim>\<open>0\<close> and \<^verbatim>\<open>""\<close> are falsy.\<close>

fun truthy :: "json \<Rightarrow> bool" where
  "truthy JNull = False"
| "truthy (JBool b) = b"
| "truthy (JNumber n) = (n \<noteq> 0)"
| "truthy (JString s) = (s \<noteq> [])"
| "truthy (JArray xs) = True"
| "truthy (JObject ps) = True"
| "truthy JUndefined = False"

text \<open>\<^verbatim>\<open>checkoutId || null\<close>\<close>

definition or_null :: "json \<Rightarrow> json" where
  "or_null checkoutId = (if truthy checkoutId then checkoutId else JNull)"

text \<open>
  \<open>checkoutId\<close> is declared \<^verbatim>\<open>string | undefined\<close>, but the caller passes whatever the
  request body holds, so it is any value here. The arguments are converted in their order:
  the third, \<^verbatim>\<open>checkoutId || null\<close>, before the fourth, \<^verbatim>\<open>JSON.stringify(payload)\<close>.
\<close>

definition logRequest ::
  "JSON \<Rightarrow> Client option \<Rightarrow> string \<Rightarrow> string \<Rightarrow> json \<Rightarrow> json \<Rightarrow> unit outcome" where
  "logRequest JSON transactionsClient meth u checkoutId pl =
     (case getTransactionsDb transactionsClient of
        Inl e \<Rightarrow> (Inl e, transactionsClient)
      | Inr db \<Rightarrow>
          (case bind_value (or_null checkoutId) of
             Inl e \<Rightarrow> (Inl e, Some db)
           | Inr c \<Rightarrow>
               (case stringify JSON pl of
                  None \<Rightarrow> (Inl TypeError, Some db)
                | Some p \<Rightarrow>
                    (case execute db Request_logs
                            (sql_insert_request_log
                               \<lparr>http_method = meth, url = u, checkout_id = c, payload = p\<rparr>) of
                       (Inl e, db') \<Rightarrow> (Inl e, Some db')
                     | (Inr rs, db') \<Rightarrow> (Inr (), Some db')))))"



section \<open>The order service (api/order)\<close>

text \<open>\<^verbatim>\<open>c.json(body, code)\<close>\<close>

record response =
  code :: nat
  body :: json

text \<open>Reading a property of an object; \<open>None\<close> is \<^verbatim>\<open>undefined\<close>.\<close>

definition get_property :: "(string \<times> json) list \<Rightarrow> string \<Rightarrow> json option" where
  "get_property ps k = map_of ps k"

text \<open>
  Assigning a property: an existing property keeps its place, a new one is added last.
\<close>

fun set_property :: "(string \<times> json) list \<Rightarrow> string \<Rightarrow> json \<Rightarrow> (string \<times> json) list" where
  "set_property [] k v = [(k, v)]"
| "set_property ((k', v') # ps) k v =
     (if k' = k then (k, v) # ps else (k', v') # set_property ps k v)"

text \<open>
  \<^verbatim>\<open>updateRequest.checkout_id\<close>: a TypeError on \<^verbatim>\<open>null\<close> (and \<^verbatim>\<open>undefined\<close>), the
  property of an object, and \<^verbatim>\<open>undefined\<close> on an array or a primitive.
\<close>

fun read_checkout_id :: "json \<Rightarrow> error + json" where
  "read_checkout_id JNull = Inl TypeError"
| "read_checkout_id JUndefined = Inl TypeError"
| "read_checkout_id (JObject ps) =
     Inr (case get_property ps ''checkout_id'' of None \<Rightarrow> JUndefined | Some v \<Rightarrow> v)"
| "read_checkout_id v = Inr JUndefined"

text \<open>
  \<^verbatim>\<open>updateRequest.id = id\<close> in strict code: the property of an object is set; on an
  array the property is set too, but it is no element, so neither \<^verbatim>\<open>JSON.stringify\<close>
  nor \<^verbatim>\<open>c.json\<close> writes it; on a primitive the assignment throws a TypeError.
\<close>

fun assign_id :: "json \<Rightarrow> string \<Rightarrow> error + json" where
  "assign_id (JObject ps) ident = Inr (JObject (set_property ps ''id'' (JString ident)))"
| "assign_id (JArray xs) ident = Inr (JArray xs)"
| "assign_id v ident = Inl TypeError"

definition order_not_found :: response where
  "order_not_found = \<lparr>code = 404, body = JObject [(''error'', JString ''Order not found'')]\<rparr>"

text \<open>\<^verbatim>\<open>OrderService.getOrder\<close>; \<open>ident\<close> is \<^verbatim>\<open>c.req.param('id')\<close>.\<close>

definition OrderService_getOrder :: "JSON \<Rightarrow> Client option \<Rightarrow> string \<Rightarrow> response outcome" where
  "OrderService_getOrder JSON transactionsClient ident =
     (case logRequest JSON transactionsClient ''GET'' (''/orders/'' @ ident) JUndefined (JObject []) of
        (Inl e, tc1) \<Rightarrow> (Inl e, tc1)
      | (Inr u, tc1) \<Rightarrow>
          (case getOrder JSON tc1 ident of
             (Inl e, tc2) \<Rightarrow> (Inl e, tc2)
           | (Inr ord, tc2) \<Rightarrow>
               (case ord of
                  None \<Rightarrow> (Inr order_not_found, tc2)
                | Some v \<Rightarrow>
                    if \<not> truthy v then (Inr order_not_found, tc2)
                    else (Inr \<lparr>code = 200, body = v\<rparr>, tc2))))"

text \<open>
  \<^verbatim>\<open>OrderService.updateOrder\<close>; \<open>updateRequest\<close> is the value that
  \<^verbatim>\<open>c.req.json<Order>()\<close> delivered, whatever JSON the body is (a body that is not JSON
  makes that call throw before the handler does anything). The arguments of
  \<^verbatim>\<open>logRequest\<close> are evaluated first, so \<^verbatim>\<open>updateRequest.checkout_id\<close> throws before
  the audit write. After the assignment \<^verbatim>\<open>updateRequest.id = id\<close> the request is
  \<open>updateRequest'\<close>.
\<close>

definition OrderService_updateOrder ::
  "JSON \<Rightarrow> Client option \<Rightarrow> string \<Rightarrow> json \<Rightarrow> response outcome" where
  "OrderService_updateOrder JSON transactionsClient ident updateRequest =
     (case read_checkout_id updateRequest of
        Inl e \<Rightarrow> (Inl e, transactionsClient)
      | Inr checkoutId \<Rightarrow>
          (case logRequest JSON transactionsClient ''PUT'' (''/orders/'' @ ident)
                  checkoutId updateRequest of
             (Inl e, tc1) \<Rightarrow> (Inl e, tc1)
           | (Inr u, tc1) \<Rightarrow>
               (case getOrder JSON tc1 ident of
                  (Inl e, tc2) \<Rightarrow> (Inl e, tc2)
                | (Inr existing, tc2) \<Rightarrow>
                    if (case existing of None \<Rightarrow> True | Some v \<Rightarrow> \<not> truthy v)
                    then (Inr order_not_found, tc2)
                    else
                      (case assign_id updateRequest ident of
                         Inl e \<Rightarrow> (Inl e, tc2)
                       | Inr updateRequest' \<Rightarrow>
                           (case saveOrder JSON tc2 ident updateRequest' of
                              (Inl e, tc3) \<Rightarrow> (Inl e, tc3)
                            | (Inr u', tc3) \<Rightarrow>
                                (Inr \<lparr>code = 200, body = updateRequest'\<rparr>, tc3))))))"

section \<open>Sequences of requests\<close>











section \<open>Concrete storage and a concrete JSON codec\<close>

text \<open>The client right after \<^verbatim>\<open>initDbs\<close> on a new database: every table exists and is empty.\<close>

definition fresh_client :: Client where
  "fresh_client =
     \<lparr>inventory = Map.empty, checkouts = Map.empty, orders = Map.empty, request_logs = [],
      idempotency_keys = Map.empty, rejects = (\<lambda>t. False)\<rparr>"

text \<open>
  The compact text of a value, as \<^verbatim>\<open>JSON.stringify\<close> writes it (quote and backslash
  are the escapes covered): a property that holds \<^verbatim>\<open>undefined\<close> is left out of its
  object, an element that is \<^verbatim>\<open>undefined\<close> is written \<^verbatim>\<open>null\<close>, and for
  \<^verbatim>\<open>undefined\<close> itself there is no text. Beside it a reader for that text. The theorems
  below hold for every codec; this one runs them on concrete requests.
\<close>

definition digit_char :: "nat \<Rightarrow> char" where
  "digit_char d = ''0123456789'' ! d"

fun nat_text :: "nat \<Rightarrow> string" where
  "nat_text n = (if n < 10 then [digit_char n] else nat_text (n div 10) @ [digit_char (n mod 10)])"

definition int_text :: "int \<Rightarrow> string" where
  "int_text i = (if i < 0 then CHR ''-'' # nat_text (nat (- i)) else nat_text (nat i))"

fun escape :: "string \<Rightarrow> string" where
  "escape [] = []"
| "escape (c # cs) =
     (if c = CHR 0x22 \<or> c = CHR 0x5C then CHR 0x5C # c # escape cs else c # escape cs)"

definition quote :: "string \<Rightarrow> string" where
  "quote s = CHR 0x22 # escape s @ [CHR 0x22]"

fun commas :: "string list \<Rightarrow> string" where
  "commas [] = []"
| "commas [x] = x"
| "commas (x # y # zs) = x @ '','' @ commas (y # zs)"

fun json_text :: "json \<Rightarrow> string" where
  "json_text JNull = ''null''"
| "json_text (JBool b) = (if b then ''true'' else ''false'')"
| "json_text (JNumber n) = int_text n"
| "json_text (JString s) = quote s"
| "json_text (JArray xs) = ''['' @ commas (map json_text xs) @ '']''"
| "json_text (JObject ps) =
     ''{'' @ commas (concat (map (\<lambda>(k, v). case v of
                                      JUndefined \<Rightarrow> []
                                    | _ \<Rightarrow> [quote k @ '':'' @ json_text v]) ps)) @ ''}''"
| "json_text JUndefined = ''null''"

definition json_stringify :: "json \<Rightarrow> string option" where
  "json_stringify v = (case v of JUndefined \<Rightarrow> None | _ \<Rightarrow> Some (json_text v))"

definition digit_value :: "char \<Rightarrow> nat option" where
  "digit_value c = (if c \<in> set ''0123456789'' then Some (of_char c - 48) else None)"

fun read_digits :: "nat \<Rightarrow> string \<Rightarrow> nat \<times> string" where
  "read_digits acc [] = (acc, [])"
| "read_digits acc (c # cs) =
     (case digit_value c of
        None \<Rightarrow> (acc, c # cs)
      | Some d \<Rightarrow> read_digits (10 * acc + d) cs)"

fun read_string :: "string \<Rightarrow> string \<Rightarrow> (string \<times> string) option" where
  "read_string acc [] = None"
| "read_string acc [c] = (if c = CHR 0x22 then Some (rev acc, []) else None)"
| "read_string acc (c # d # cs) =
     (if c = CHR 0x22 then Some (rev acc, d # cs)
      else if c = CHR 0x5C then read_string (d # acc) cs
      else read_string (c # acc) (d # cs))"

fun read_value :: "nat \<Rightarrow> string \<Rightarrow> (json \<times> string) option"
  and read_elements :: "nat \<Rightarrow> json list \<Rightarrow> string \<Rightarrow> (json list \<times> string) option"
  and read_members ::
    "nat \<Rightarrow> (string \<times> json) list \<Rightarrow> string \<Rightarrow> ((string \<times> json) list \<times> string) option"
where
  "read_value 0 cs = None"
| "read_value (Suc fuel) cs =
     (case cs of
        [] \<Rightarrow> None
      | c # rest \<Rightarrow>
          if c = CHR 0x22 then
            (case read_string [] rest of None \<Rightarrow> None | Some (s, r) \<Rightarrow> Some (JString s, r))
          else if c = CHR ''['' then
            (case rest of
               [] \<Rightarrow> None
             | d # r \<Rightarrow>
                 if d = CHR '']'' then Some (JArray [], r)
                 else (case read_elements fuel [] rest of
                         None \<Rightarrow> None
                       | Some (xs, r') \<Rightarrow> Some (JArray xs, r')))
          else if c = CHR ''{'' then
            (case rest of
               [] \<Rightarrow> None
             | d # r \<Rightarrow>
                 if d = CHR ''}'' then Some (JObject [], r)
                 else (case read_members fuel [] rest of
                         None \<Rightarrow> None
                       | Some (ps, r') \<Rightarrow> Some (JObject ps, r')))
          else if c = CHR ''-'' then
            (case rest of
               [] \<Rightarrow> None
             | d # r \<Rightarrow>
                 (case digit_value d of
                    None \<Rightarrow> None
                  | Some _ \<Rightarrow>
                      (case read_digits 0 rest of (n, r') \<Rightarrow> Some (JNumber (- int n), r'))))
          else if digit_value c \<noteq> None then
            (case read_digits 0 cs of (n, r') \<Rightarrow> Some (JNumber (int n), r'))
          else if take 4 cs = ''null'' then Some (JNull, drop 4 cs)
          else if take 4 cs = ''true'' then Some (JBool True, drop 4 cs)
          else if take 5 cs = ''false'' then Some (JBool False, drop 5 cs)
          else None)"
| "read_elements 0 acc cs = None"
| "read_elements (Suc fuel) acc cs =
     (case read_value fuel cs of
        None \<Rightarrow> None
      | Some (v, r) \<Rightarrow>
          (case r of
             [] \<Rightarrow> None
           | c # r' \<Rightarrow>
               if c = CHR '','' then read_elements fuel (acc @ [v]) r'
               else if c = CHR '']'' then Some (acc @ [v], r')
               else None))"
| "read_members 0 acc cs = None"
| "read_members (Suc fuel) acc cs =
     (case cs of
        [] \<Rightarrow> None
      | q # cs' \<Rightarrow>
          if q \<noteq> CHR 0x22 then None
          else
            (case read_string [] cs' of
               None \<Rightarrow> None
             | Some (k, r) \<Rightarrow>
                 (case r of
                    [] \<Rightarrow> None
                  | c # r' \<Rightarrow>
                      if c \<noteq> CHR '':'' then None
                      else
                        (case read_value fuel r' of
                           None \<Rightarrow> None
                         | Some (v, r'') \<Rightarrow>
                             (case r'' of
                                [] \<Rightarrow> None
                              | e # r3 \<Rightarrow>
                                  if e = CHR '','' then read_members fuel (acc @ [(k, v)]) r3
                                  else if e = CHR ''}'' then Some (acc @ [(k, v)], r3)
                                  else None)))))"

text \<open>The text is read with more fuel than it has characters; the whole text must be used.\<close>

definition json_read :: "string \<Rightarrow> json option" where
  "json_read s = (case read_value (Suc (length s)) s of Some (v, []) \<Rightarrow> Some v | _ \<Rightarrow> None)"

definition compact_JSON :: JSON where
  "compact_JSON = \<lparr>stringify = json_stringify, parse = json_read\<rparr>"




definition order_placed :: json where
  "order_placed =
     JObject [(''id'', JString ''o1''), (''checkout_id'', JString ''C1''),
              (''status'', JString ''placed''), (''total'', JNumber 2500)]"

definition order_update :: json where
  "order_update =
     JObject [(''id'', JString ''other''), (''checkout_id'', JString ''C1''),
              (''status'', JString ''shipped''), (''total'', JNumber 1)]"

text \<open>A request whose \<open>checkout_id\<close> is an object, which the client cannot bind.\<close>

definition order_update_unbindable :: json where
  "order_update_unbindable =
     JObject [(''checkout_id'', JObject [(''a'', JNumber 1)]), (''status'', JString ''x'')]"

definition order_client :: Client where
  "order_client = fresh_client\<lparr>orders := [''o1'' \<mapsto> json_text order_placed]\<rparr>"

text \<open>The same storage when it refuses every statement on \<^verbatim>\<open>request_logs\<close>.\<close>

definition audit_down_client :: Client where
  "audit_down_client = order_client\<lparr>rejects := (\<lambda>t. t = Request_logs)\<rparr>"

section \<open>Rounding to the nearest double\<close>

lemma round_half_even_of_int: "round_half_even (of_int m) = m"
  by (simp add: round_half_even_def)


lemma round_half_even_le: "round_half_even r \<le> \<lfloor>r\<rfloor> + 1"
  by (simp add: round_half_even_def Let_def)



lemma bitlen_le_nat: "bitlen t \<le> int n \<longleftrightarrow> t < 2 ^ n"
  using bitlen_le_iff_power [of t "int n"] by (simp only: nat_int of_nat_0_le_iff simp_thms)

lemma bitlen_ge_Suc: "int (Suc n) \<le> bitlen t \<longleftrightarrow> 2 ^ n \<le> t"
proof -
  have "nat (int (Suc n)) - 1 = n" by simp
  moreover have "\<not> int (Suc n) \<le> 0" by simp
  ultimately show ?thesis
    using bitlen_ge_iff_power [of "int (Suc n)" t] by (simp only: simp_thms)
qed

lemma dropped_bits_le:
  assumes "t < 2 ^ (53 + e)"
  shows "dropped_bits t \<le> e"
proof -
  from assms have "bitlen t \<le> int (53 + e)" by (simp only: bitlen_le_nat)
  then show ?thesis by (simp add: dropped_bits_def)
qed

lemma dropped_bits_ge:
  assumes "2 ^ (52 + e) \<le> t"
  shows "e \<le> dropped_bits t"
proof -
  from assms have "int (Suc (52 + e)) \<le> bitlen t" by (simp only: bitlen_ge_Suc)
  then show ?thesis by (simp add: dropped_bits_def)
qed




lemma floor_scaled_int: "\<lfloor>\<bar>of_int n :: rat\<bar> * 2 ^ k\<rfloor> = \<bar>n\<bar> * 2 ^ k"
proof -
  have "\<bar>of_int n :: rat\<bar> * 2 ^ k = of_int (\<bar>n\<bar> * 2 ^ k)" by simp
  then show ?thesis by (simp only: floor_of_int)
qed

lemma nearest_double_of_int:
  assumes "\<bar>n\<bar> < 2 ^ 53"
  shows "nearest_double (of_int n) = of_int n"
proof -
  define k :: nat where "k = 1074"
  have S: "binary64_scale = 2 ^ k" by (simp only: binary64_scale_def k_def)
  define e where "e = ulp_exponent (of_int n)"
  have t: "\<lfloor>\<bar>of_int n :: rat\<bar> * binary64_scale\<rfloor> = \<bar>n\<bar> * 2 ^ k"
    unfolding S by (rule floor_scaled_int)
  from assms have "\<bar>n\<bar> * 2 ^ k < 2 ^ 53 * (2::int) ^ k"
    by (intro mult_strict_right_mono) simp_all
  then have "\<bar>n\<bar> * 2 ^ k < (2::int) ^ (53 + k)" by (simp only: power_add)
  then have "e \<le> k"
    unfolding e_def ulp_exponent_def t by (rule dropped_bits_le)
  then obtain d where k: "k = e + d" by (metis le_Suc_ex)
  have "of_int n / ((2::rat) ^ e / binary64_scale) = of_int (n * 2 ^ d)"
    unfolding S k by (simp add: power_add)
  then have "round_half_even (of_int n / ((2::rat) ^ e / binary64_scale)) = n * 2 ^ d"
    by (simp only: round_half_even_of_int)
  then have "nearest_double (of_int n) = of_int (n * 2 ^ d) * (2 ^ e / binary64_scale)"
    by (simp add: nearest_double_def Let_def e_def)
  also have "\<dots> = of_int n"
    unfolding S k by (simp add: power_add)
  finally show ?thesis .
qed


lemma nearest_double_int_shift:
  assumes "2 ^ (52 + j) \<le> \<bar>n\<bar>" and "\<bar>n\<bar> < 2 ^ (53 + j)"
  shows "nearest_double (of_int n) = of_int (round_half_even (of_int n / 2 ^ j) * 2 ^ j)"
proof -
  define k :: nat where "k = 1074"
  have S: "binary64_scale = 2 ^ k" by (simp only: binary64_scale_def k_def)
  have t: "\<lfloor>\<bar>of_int n :: rat\<bar> * binary64_scale\<rfloor> = \<bar>n\<bar> * 2 ^ k"
    unfolding S by (rule floor_scaled_int)
  from assms(1) have "2 ^ (52 + j) * (2::int) ^ k \<le> \<bar>n\<bar> * 2 ^ k"
    by (intro mult_right_mono) simp_all
  then have "(2::int) ^ (52 + (j + k)) \<le> \<bar>n\<bar> * 2 ^ k" by (simp only: power_add mult.assoc)
  then have lo: "j + k \<le> ulp_exponent (of_int n)"
    unfolding ulp_exponent_def t by (rule dropped_bits_ge)
  from assms(2) have "\<bar>n\<bar> * 2 ^ k < 2 ^ (53 + j) * (2::int) ^ k"
    by (intro mult_strict_right_mono) simp_all
  then have "\<bar>n\<bar> * 2 ^ k < (2::int) ^ (53 + (j + k))" by (simp only: power_add mult.assoc)
  then have "ulp_exponent (of_int n) \<le> j + k"
    unfolding ulp_exponent_def t by (rule dropped_bits_le)
  with lo have e: "ulp_exponent (of_int n) = j + k" by simp
  have u: "(2::rat) ^ (j + k) / binary64_scale = 2 ^ j"
    unfolding S by (simp add: power_add)
  show ?thesis
    unfolding nearest_double_def Let_def e u by simp
qed

lemma to_number_of_int:
  assumes "\<bar>n\<bar> < 2 ^ 53"
  shows "to_number (of_int n) = Finite (of_int n)"
proof -
  have "(2::int) ^ 53 \<le> 2 ^ 1024" by (intro power_increasing) simp_all
  with assms have "\<bar>n\<bar> < 2 ^ 1024" by linarith
  then have "\<bar>of_int n :: rat\<bar> < 2 ^ 1024"
    by (metis of_int_abs of_int_less_iff of_int_numeral of_int_power)
  then have "\<not> 2 ^ 1024 \<le> (of_int n :: rat)" and "\<not> (of_int n :: rat) \<le> - (2 ^ 1024)"
    by linarith+
  then show ?thesis
    unfolding to_number_def Let_def nearest_double_of_int [OF assms] by (simp only: if_False)
qed

lemma column_affinity_int:
  assumes "\<bar>n\<bar> < 2 ^ 63"
  shows "column_affinity (Finite (of_int n)) = Integer n"
proof -
  from assms have "- (2 ^ 63) < n" and "n < 2 ^ 63" by linarith+
  then have "- (2 ^ 63) < (of_int n :: rat)" and "(of_int n :: rat) < 2 ^ 63"
    by (metis of_int_less_iff of_int_minus of_int_numeral of_int_power)+
  then show ?thesis by simp
qed

lemma column_affinity_of_int:
  assumes "\<bar>n\<bar> < 2 ^ 53"
  shows "column_affinity (Finite (of_int n)) = Integer n"
proof -
  have "(2::int) ^ 53 \<le> 2 ^ 63" by (intro power_increasing) simp_all
  with assms have "- (2 ^ 63) < n" and "n < 2 ^ 63" by linarith+
  then have "- (2 ^ 63) < (of_int n :: rat)" and "(of_int n :: rat) < 2 ^ 63"
    by (metis of_int_less_iff of_int_minus of_int_numeral of_int_power)+
  then show ?thesis by simp
qed

lemma sql_minus_safe:
  assumes "\<bar>a\<bar> < 2 ^ 53" and "\<bar>a - q\<bar> < 2 ^ 53"
  shows "sql_minus (Integer a) (of_int q) = Integer (a - q)"
proof -
  have 1: "sql_as_real (Integer a) = Some (Finite (of_int a))"
    by (simp add: to_number_of_int [OF assms(1)])
  have "(of_int a :: rat) - of_int q = of_int (a - q)" by simp
  then have 2: "real_minus (Finite (of_int a)) (of_int q) = Finite (of_int (a - q))"
    by (simp only: real_minus.simps to_number_of_int [OF assms(2)])
  show ?thesis
    unfolding sql_minus_def 1 option.case 2 by (rule column_affinity_of_int [OF assms(2)])
qed

lemma sql_plus_safe:
  assumes "\<bar>a\<bar> < 2 ^ 53" and "\<bar>a + q\<bar> < 2 ^ 53"
  shows "sql_plus (Integer a) (of_int q) = Integer (a + q)"
proof -
  have 1: "sql_as_real (Integer a) = Some (Finite (of_int a))"
    by (simp add: to_number_of_int [OF assms(1)])
  have "(of_int a :: rat) + of_int q = of_int (a + q)" by simp
  then have 2: "real_plus (Finite (of_int a)) (of_int q) = Finite (of_int (a + q))"
    by (simp only: real_plus.simps to_number_of_int [OF assms(2)])
  show ?thesis
    unfolding sql_plus_def 1 option.case 2 by (rule column_affinity_of_int [OF assms(2)])
qed


lemma safe_integer_less: "safe_integer i \<longleftrightarrow> \<bar>i\<bar> < 2 ^ 53"
  by (auto simp: safe_integer_def MAX_SAFE_INTEGER_def)





text \<open>Around \<open>2\<^sup>5\<^sup>3\<close> the doubles are the even integers, then the multiples of 4.\<close>

lemma round_half_even_half:
  "round_half_even (of_int n / 2) =
     (if even n then n div 2 else if even (n div 2) then n div 2 else n div 2 + 1)"
proof -
  have fl: "\<lfloor>(of_int n :: rat) / 2\<rfloor> = n div 2"
    by (metis floor_divide_of_int_eq of_int_numeral)
  have "of_int n = (of_int (2 * (n div 2) + n mod 2) :: rat)" by simp
  then have d: "(of_int n :: rat) / 2 - of_int (n div 2) = of_int (n mod 2) / 2"
    by (simp only: of_int_add of_int_mult) (simp add: field_simps)
  show ?thesis
  proof (cases "even n")
    case True
    then have "n mod 2 = 0" by presburger
    with d True show ?thesis by (simp add: round_half_even_def Let_def fl)
  next
    case False
    then have "n mod 2 = 1" by presburger
    with d False show ?thesis by (simp add: round_half_even_def Let_def fl)
  qed
qed

lemma nearest_double_shift_1:
  assumes "2 ^ 53 \<le> \<bar>n\<bar>" and "\<bar>n\<bar> < 2 ^ 54"
  shows "nearest_double (of_int n) =
     of_int ((if even n then n div 2 else if even (n div 2) then n div 2 else n div 2 + 1) * 2)"
proof -
  from assms have "2 ^ (52 + 1) \<le> \<bar>n\<bar>" and "\<bar>n\<bar> < 2 ^ (53 + 1)" by simp_all
  then have "nearest_double (of_int n) = of_int (round_half_even (of_int n / 2 ^ 1) * 2 ^ 1)"
    by (rule nearest_double_int_shift)
  then show ?thesis by (simp only: power_one_right round_half_even_half)
qed

lemma nearest_double_above_safe:
  "nearest_double 9007199254740993 = 9007199254740992"
  "nearest_double 9007199254740992 = 9007199254740992"
  "nearest_double 9007199254740997 = 9007199254740996"
  using nearest_double_shift_1 [of 9007199254740993] nearest_double_shift_1 [of 9007199254740992]
    nearest_double_shift_1 [of 9007199254740997]
  by simp_all

lemma sql_minus_above_safe:
  "sql_minus (Integer 9007199254740993) 1 = Integer 9007199254740991"
proof -
  have 1: "sql_as_real (Integer 9007199254740993) = Some (Finite 9007199254740992)"
    by (simp add: to_number_def nearest_double_above_safe)
  have "to_number (of_int 9007199254740991) = Finite (of_int 9007199254740991)"
    by (rule to_number_of_int) simp
  then have 2: "real_minus (Finite 9007199254740992) 1 = Finite (of_int 9007199254740991)"
    by simp
  have 3: "column_affinity (Finite (of_int 9007199254740991)) = Integer 9007199254740991"
    by (rule column_affinity_int) simp
  show ?thesis
    unfolding sql_minus_def 1 option.case 2 3 ..
qed

lemma sql_plus_to_unsafe:
  "sql_plus (Integer 9007199254740991) 1 = Integer 9007199254740992"
proof -
  have "to_number (of_int 9007199254740991) = Finite (of_int 9007199254740991)"
    by (rule to_number_of_int) simp
  then have 1: "sql_as_real (Integer 9007199254740991) = Some (Finite 9007199254740991)"
    by simp
  have 2: "real_plus (Finite 9007199254740991) 1 = Finite (of_int 9007199254740992)"
    by (simp add: to_number_def nearest_double_above_safe)
  have 3: "column_affinity (Finite (of_int 9007199254740992)) = Integer 9007199254740992"
    by (rule column_affinity_int) simp
  show ?thesis
    unfolding sql_plus_def 1 option.case 2 3 ..
qed

lemma sql_plus_rounded:
  "sql_plus (Integer 5) 9007199254740992 = Integer 9007199254740996"
proof -
  have "to_number (of_int 5) = Finite (of_int 5)"
    by (rule to_number_of_int) simp
  then have 1: "sql_as_real (Integer 5) = Some (Finite 5)"
    by simp
  have 2: "real_plus (Finite 5) 9007199254740992 = Finite (of_int 9007199254740996)"
    by (simp add: to_number_def nearest_double_above_safe)
  have 3: "column_affinity (Finite (of_int 9007199254740996)) = Integer 9007199254740996"
    by (rule column_affinity_int) simp
  show ?thesis
    unfolding sql_plus_def 1 option.case 2 3 ..
qed

section \<open>Reserving and releasing stock\<close>

lemma reserveStock_accepted:
  "\<not> rejects db Inventory \<Longrightarrow>
   reserveStock (Some db) p (Finite q) =
     (case inventory db p of
        None \<Rightarrow> (Inr False, Some db)
      | Some v \<Rightarrow>
          if sql_ge v q then (Inr True, Some (db\<lparr>inventory := (inventory db)(p \<mapsto> sql_minus v q)\<rparr>))
          else (Inr False, Some db))"
  by (simp add: reserveStock_def getTransactionsDb_def execute_def sql_update_reserve_def
      split: option.split)

lemma releaseStock_accepted:
  "\<not> rejects db Inventory \<Longrightarrow>
   releaseStock (Some db) p (Finite q) =
     (case inventory db p of
        None \<Rightarrow> (Inr (), Some db)
      | Some v \<Rightarrow> (Inr (), Some (db\<lparr>inventory := (inventory db)(p \<mapsto> sql_plus v q)\<rparr>)))"
  by (simp add: releaseStock_def getTransactionsDb_def execute_def sql_update_release_def
      split: option.split)

lemma getInventory_accepted:
  "\<not> rejects db Inventory \<Longrightarrow>
   getInventory (Some db) p =
     (case inventory db p of
        None \<Rightarrow> (Inr None, Some db)
      | Some v \<Rightarrow>
          (case Number_of_column v of
             Inl e \<Rightarrow> (Inl e, Some db)
           | Inr n \<Rightarrow> (Inr (Some n), Some db)))"
  by (simp add: getInventory_def getTransactionsDb_def execute_def sql_select_quantity_def
      split: option.split sum.split)

lemma reserveStock_rejected:
  "rejects db Inventory \<Longrightarrow>
   reserveStock (Some db) p (Finite q) = (Inl (ExecuteRejected Inventory), Some db)"
  by (simp add: reserveStock_def getTransactionsDb_def execute_def)






lemma safe_integer_difference:
  assumes "safe_integer a" and "0 \<le> q" and "q \<le> a"
  shows "\<bar>a\<bar> < 2 ^ 53" and "\<bar>a - q\<bar> < 2 ^ 53" and "safe_integer (a - q)"
  using assms by (auto simp: safe_integer_def MAX_SAFE_INTEGER_def)

text \<open>
  Claim C1 as stated, for every recorded quantity, fails: the client binds the requested
  quantity as a REAL, so SQLite subtracts in double arithmetic. With 9007199254740993
  (\<open>2\<^sup>5\<^sup>3 + 1\<close>) recorded, a reserve of 1 returns true and leaves 9007199254740991, not
  9007199254740992.
\<close>

theorem reserveStock_exact_counterexample:
  "reserveStock (Some (fresh_client\<lparr>inventory := [''P1'' \<mapsto> Integer 9007199254740993]\<rparr>))
       ''P1'' (Finite 1)
     = (Inr True, Some (fresh_client\<lparr>inventory := [''P1'' \<mapsto> Integer 9007199254740991]\<rparr>))
   \<and> Integer 9007199254740991 \<noteq> Integer (9007199254740993 - 1)"
  by (simp add: reserveStock_accepted fresh_client_def sql_minus_above_safe)

text \<open>
  Claim C1, amended. For a product whose recorded quantity is a safe integer \<open>a\<close>
  (\<open>\<bar>a\<bar> \<le> 2\<^sup>5\<^sup>3 - 1\<close>) and a requested integer quantity \<open>q\<close> with \<open>0 \<le> q\<close>, on an
  initialised client whose storage accepts the statement: when \<open>q \<le> a\<close>,
  \<^verbatim>\<open>reserveStock\<close> returns true and the recorded quantity becomes \<open>a - q\<close>; when
  \<open>a < q\<close> it returns false and the recorded quantity stays \<open>a\<close>; \<^verbatim>\<open>getInventory\<close>
  reads these quantities. In particular, from a quantity of 5 a reserve of 3 returns true
  leaving 2, a second reserve of 3 returns false leaving 2, and a release of 3 restores 5.
\<close>

theorem reserveStock_compare_and_decrement:
  assumes "inventory db p = Some (Integer a)" and "safe_integer a" and "0 \<le> q"
    and "\<not> rejects db Inventory"
  shows "(q \<le> a \<longrightarrow>
            reserveStock (Some db) p (Finite (of_int q))
              = (Inr True, Some (db\<lparr>inventory := (inventory db)(p \<mapsto> Integer (a - q))\<rparr>))
          \<and> fst (getInventory (snd (reserveStock (Some db) p (Finite (of_int q)))) p)
              = Inr (Some (Finite (of_int (a - q)))))
       \<and> (a < q \<longrightarrow>
            reserveStock (Some db) p (Finite (of_int q)) = (Inr False, Some db)
          \<and> fst (getInventory (snd (reserveStock (Some db) p (Finite (of_int q)))) p)
              = Inr (Some (Finite (of_int a))))
       \<and> (a = 5 \<longrightarrow>
            (let (r1, tc1) = reserveStock (Some db) p (Finite 3);
                 (r2, tc2) = reserveStock tc1 p (Finite 3);
                 (r3, tc3) = releaseStock tc2 p (Finite 3)
             in r1 = Inr True \<and> fst (getInventory tc1 p) = Inr (Some (Finite 2))
              \<and> r2 = Inr False \<and> fst (getInventory tc2 p) = Inr (Some (Finite 2))
              \<and> r3 = Inr () \<and> fst (getInventory tc3 p) = Inr (Some (Finite 5))))"
proof (intro conjI impI)
  assume le: "q \<le> a"
  note safe = safe_integer_difference [OF assms(2,3) le]
  from assms le show run: "reserveStock (Some db) p (Finite (of_int q))
      = (Inr True, Some (db\<lparr>inventory := (inventory db)(p \<mapsto> Integer (a - q))\<rparr>))"
    by (simp add: reserveStock_accepted sql_minus_safe [OF safe(1,2)])
  from assms safe(3)
  show "fst (getInventory (snd (reserveStock (Some db) p (Finite (of_int q)))) p)
      = Inr (Some (Finite (of_int (a - q))))"
    unfolding run by (simp add: getInventory_accepted)
next
  assume less: "a < q"
  with assms show run: "reserveStock (Some db) p (Finite (of_int q)) = (Inr False, Some db)"
    by (simp add: reserveStock_accepted)
  from assms
  show "fst (getInventory (snd (reserveStock (Some db) p (Finite (of_int q)))) p)
      = Inr (Some (Finite (of_int a)))"
    unfolding run by (simp add: getInventory_accepted)
next
  assume five: "a = 5"
  have m: "sql_minus (Integer 5) 3 = Integer 2"
    using sql_minus_safe [of 5 3] by simp
  have pl: "sql_plus (Integer 2) 3 = Integer 5"
    using sql_plus_safe [of 2 3] by simp
  have s: "safe_integer 2" "safe_integer 5"
    by (simp_all add: safe_integer_def MAX_SAFE_INTEGER_def)
  from assms five
  show "let (r1, tc1) = reserveStock (Some db) p (Finite 3);
            (r2, tc2) = reserveStock tc1 p (Finite 3);
            (r3, tc3) = releaseStock tc2 p (Finite 3)
        in r1 = Inr True \<and> fst (getInventory tc1 p) = Inr (Some (Finite 2))
         \<and> r2 = Inr False \<and> fst (getInventory tc2 p) = Inr (Some (Finite 2))
         \<and> r3 = Inr () \<and> fst (getInventory tc3 p) = Inr (Some (Finite 5))"
    by (simp add: reserveStock_accepted releaseStock_accepted getInventory_accepted m pl s)
qed

text \<open>The scenario of C1, amended, on a new database whose only inventory row is \<open>P1\<close> with 5.\<close>

theorem reserveStock_compare_and_decrement_witness:
  "reserveStock (Some (fresh_client\<lparr>inventory := [''P1'' \<mapsto> Integer 5]\<rparr>)) ''P1'' (Finite 3)
     = (Inr True, Some (fresh_client\<lparr>inventory := [''P1'' \<mapsto> Integer 2]\<rparr>))
   \<and> reserveStock (Some (fresh_client\<lparr>inventory := [''P1'' \<mapsto> Integer 2]\<rparr>)) ''P1'' (Finite 3)
     = (Inr False, Some (fresh_client\<lparr>inventory := [''P1'' \<mapsto> Integer 2]\<rparr>))
   \<and> fst (getInventory
          (snd (releaseStock (Some (fresh_client\<lparr>inventory := [''P1'' \<mapsto> Integer 2]\<rparr>))
                  ''P1'' (Finite 3))) ''P1'')
     = Inr (Some (Finite 5))"
proof -
  let ?five = "fresh_client\<lparr>inventory := [''P1'' \<mapsto> Integer 5]\<rparr>"
  let ?two = "fresh_client\<lparr>inventory := [''P1'' \<mapsto> Integer 2]\<rparr>"
  have five: "inventory ?five ''P1'' = Some (Integer 5)" "\<not> rejects ?five Inventory"
    by (simp_all add: fresh_client_def)
  have two: "inventory ?two ''P1'' = Some (Integer 2)" "\<not> rejects ?two Inventory"
    by (simp_all add: fresh_client_def)
  have s: "safe_integer 5" "safe_integer 2"
    by (simp_all add: safe_integer_def MAX_SAFE_INTEGER_def)
  have q: "(0::int) \<le> 3" by simp
  note a = reserveStock_compare_and_decrement [OF five(1) s(1) q five(2)]
  note b = reserveStock_compare_and_decrement [OF two(1) s(2) q two(2)]
  from a have 1: "reserveStock (Some ?five) ''P1'' (Finite 3) = (Inr True, Some ?two)"
    by (simp add: fresh_client_def)
  from b have 2: "reserveStock (Some ?two) ''P1'' (Finite 3) = (Inr False, Some ?two)"
    by simp
  from a 1 2
  have 3: "fst (getInventory (snd (releaseStock (Some ?two) ''P1'' (Finite 3))) ''P1'')
      = Inr (Some (Finite 5))"
    by (simp add: Let_def split: prod.splits)
  show ?thesis
    by (intro conjI) (rule 1, rule 2, rule 3)
qed








text \<open>
  Claim C3 as stated, for every product and quantity, fails in two ways. When the reserve is
  refused (2 recorded, a reserve of 3 returns false) the release of 3 still adds 3, and
  \<^verbatim>\<open>getInventory\<close> reads 5 instead of 2. And outside the safe integers the double
  arithmetic is not exact: with 9007199254740993 recorded, a reserve of 1 returns true and
  the release of 1 leaves 9007199254740992.
\<close>

theorem reserve_then_release_counterexample:
  "\<not> (fst (getInventory
             (snd (releaseStock
                (snd (reserveStock (Some (fresh_client\<lparr>inventory := [''P1'' \<mapsto> Integer 2]\<rparr>))
                        ''P1'' (Finite 3)))
                ''P1'' (Finite 3)))
             ''P1'')
       = fst (getInventory (Some (fresh_client\<lparr>inventory := [''P1'' \<mapsto> Integer 2]\<rparr>)) ''P1''))
   \<and> fst (reserveStock (Some (fresh_client\<lparr>inventory := [''P1'' \<mapsto> Integer 9007199254740993]\<rparr>))
            ''P1'' (Finite 1)) = Inr True
   \<and> snd (releaseStock
            (snd (reserveStock
               (Some (fresh_client\<lparr>inventory := [''P1'' \<mapsto> Integer 9007199254740993]\<rparr>))
               ''P1'' (Finite 1)))
            ''P1'' (Finite 1))
       = Some (fresh_client\<lparr>inventory := [''P1'' \<mapsto> Integer 9007199254740992]\<rparr>)
   \<and> Integer 9007199254740992 \<noteq> Integer 9007199254740993"
proof -
  have pl: "sql_plus (Integer 2) 3 = Integer 5"
    using sql_plus_safe [of 2 3] by simp
  have s: "safe_integer 2" "safe_integer 5"
    by (simp_all add: safe_integer_def MAX_SAFE_INTEGER_def)
  show ?thesis
    by (simp add: reserveStock_accepted releaseStock_accepted getInventory_accepted
        fresh_client_def pl s sql_minus_above_safe sql_plus_to_unsafe)
qed

text \<open>
  Claim C3, amended. When the recorded quantity \<open>a\<close>, the integer quantity \<open>q\<close> and
  \<open>a - q\<close> are safe integers and \<^verbatim>\<open>reserveStock(p, q)\<close> returned true,
  \<^verbatim>\<open>releaseStock(p, q)\<close> performed right after it succeeds and leaves the whole storage,
  and so the quantity that \<^verbatim>\<open>getInventory\<close> reads for \<open>p\<close>, exactly as it was before
  the reserve.
\<close>

theorem reserve_then_release_restores:
  assumes "inventory db p = Some (Integer a)"
    and "safe_integer a" and "safe_integer q" and "safe_integer (a - q)"
    and "fst (reserveStock (Some db) p (Finite (of_int q))) = Inr True"
  shows "snd (releaseStock (snd (reserveStock (Some db) p (Finite (of_int q)))) p (Finite (of_int q)))
           = Some db
       \<and> fst (releaseStock (snd (reserveStock (Some db) p (Finite (of_int q)))) p (Finite (of_int q)))
           = Inr ()
       \<and> fst (getInventory
               (snd (releaseStock (snd (reserveStock (Some db) p (Finite (of_int q)))) p
                       (Finite (of_int q)))) p)
           = fst (getInventory (Some db) p)"
proof (cases "rejects db Inventory")
  case True
  with assms(5) show ?thesis by (simp add: reserveStock_rejected)
next
  case False
  from assms(2,4) have a: "\<bar>a\<bar> < 2 ^ 53" and d: "\<bar>a - q\<bar> < 2 ^ 53"
    by (simp_all add: safe_integer_less)
  from a have again: "\<bar>a - q + q\<bar> < 2 ^ 53" by simp
  from assms(1,5) False have ge: "sql_ge (Integer a) (of_int q)"
    by (simp add: reserveStock_accepted split: if_splits)
  have "(inventory db)(p \<mapsto> Integer a) = inventory db"
    using assms(1) by (simp add: map_upd_triv)
  with assms(1) False ge show ?thesis
    using sql_plus_safe [OF d again]
    by (simp add: reserveStock_accepted releaseStock_accepted sql_minus_safe [OF a d])
qed

text \<open>The round trip of C3, amended, on \<open>P1 = 5\<close> and a quantity of 3.\<close>

theorem reserve_then_release_restores_witness:
  "fst (reserveStock (Some (fresh_client\<lparr>inventory := [''P1'' \<mapsto> Integer 5]\<rparr>)) ''P1'' (Finite 3))
     = Inr True
   \<and> snd (releaseStock
            (snd (reserveStock (Some (fresh_client\<lparr>inventory := [''P1'' \<mapsto> Integer 5]\<rparr>))
                    ''P1'' (Finite 3)))
            ''P1'' (Finite 3))
       = Some (fresh_client\<lparr>inventory := [''P1'' \<mapsto> Integer 5]\<rparr>)"
proof -
  let ?db = "fresh_client\<lparr>inventory := [''P1'' \<mapsto> Integer 5]\<rparr>"
  have row: "inventory ?db ''P1'' = Some (Integer 5)" by simp
  have s: "safe_integer 5" "safe_integer 3" "safe_integer (5 - 3)"
    by (simp_all add: safe_integer_def MAX_SAFE_INTEGER_def)
  have m: "sql_minus (Integer 5) 3 = Integer 2"
    using sql_minus_safe [of 5 3] by simp
  have ok: "fst (reserveStock (Some ?db) ''P1'' (Finite (of_int 3))) = Inr True"
    by (simp add: reserveStock_accepted fresh_client_def)
  from reserve_then_release_restores [OF row s ok] ok show ?thesis by simp
qed

text \<open>
  Claim C9 as stated, for every quantity \<open>q \<ge> 0\<close>, fails: the sum is computed in double
  arithmetic. With 5 recorded, a release of 9007199254740992 (\<open>2\<^sup>5\<^sup>3\<close>) leaves
  9007199254740996, not 9007199254740997.
\<close>

theorem releaseStock_exact_counterexample:
  "releaseStock (Some (fresh_client\<lparr>inventory := [''P1'' \<mapsto> Integer 5]\<rparr>))
       ''P1'' (Finite 9007199254740992)
     = (Inr (), Some (fresh_client\<lparr>inventory := [''P1'' \<mapsto> Integer 9007199254740996]\<rparr>))
   \<and> Integer 9007199254740996 \<noteq> Integer (5 + 9007199254740992)"
  by (simp add: releaseStock_accepted fresh_client_def sql_plus_rounded)

text \<open>
  Claim C9, amended. For every integer quantity \<open>q\<close> with \<open>0 \<le> q \<le> 2\<^sup>5\<^sup>3 - 1\<close>, on an
  initialised client whose storage accepts the statement, \<^verbatim>\<open>releaseStock\<close> adds exactly
  \<open>q\<close> to the recorded quantity \<open>a\<close> of the product whenever \<open>a\<close> and \<open>a + q\<close> are safe
  integers, with no condition on the stock, and \<^verbatim>\<open>getInventory\<close> reads \<open>a + q\<close>; it
  creates no row for a product that has none, and the quantities of the other products read
  as before.
\<close>

theorem releaseStock_unconditional_increment:
  assumes "0 \<le> q" and "safe_integer q" and "\<not> rejects db Inventory"
  shows "(\<forall>a. inventory db p = Some (Integer a) \<and> safe_integer a \<and> safe_integer (a + q) \<longrightarrow>
            releaseStock (Some db) p (Finite (of_int q))
              = (Inr (), Some (db\<lparr>inventory := (inventory db)(p \<mapsto> Integer (a + q))\<rparr>))
          \<and> fst (getInventory (snd (releaseStock (Some db) p (Finite (of_int q)))) p)
              = Inr (Some (Finite (of_int (a + q)))))
       \<and> (inventory db p = None \<longrightarrow>
            releaseStock (Some db) p (Finite (of_int q)) = (Inr (), Some db))
       \<and> (\<forall>p'. p' \<noteq> p \<longrightarrow>
            fst (getInventory (snd (releaseStock (Some db) p (Finite (of_int q)))) p')
              = fst (getInventory (Some db) p'))"
proof (intro conjI allI impI)
  fix a
  assume h: "inventory db p = Some (Integer a) \<and> safe_integer a \<and> safe_integer (a + q)"
  then have b: "\<bar>a\<bar> < 2 ^ 53" "\<bar>a + q\<bar> < 2 ^ 53" by (simp_all add: safe_integer_less)
  from h assms show run: "releaseStock (Some db) p (Finite (of_int q))
      = (Inr (), Some (db\<lparr>inventory := (inventory db)(p \<mapsto> Integer (a + q))\<rparr>))"
    by (simp add: releaseStock_accepted sql_plus_safe [OF b])
  from h assms
  show "fst (getInventory (snd (releaseStock (Some db) p (Finite (of_int q)))) p)
      = Inr (Some (Finite (of_int (a + q))))"
    unfolding run by (simp add: getInventory_accepted)
next
  assume "inventory db p = None"
  with assms show "releaseStock (Some db) p (Finite (of_int q)) = (Inr (), Some db)"
    by (simp add: releaseStock_accepted)
next
  fix p'
  assume "p' \<noteq> p"
  with assms
  show "fst (getInventory (snd (releaseStock (Some db) p (Finite (of_int q)))) p')
      = fst (getInventory (Some db) p')"
    by (simp add: releaseStock_accepted getInventory_accepted split: option.splits sum.splits)
qed

text \<open>C9, amended, on a release for the product that has a row and for one that has none.\<close>

theorem releaseStock_unconditional_increment_witness:
  "releaseStock (Some (fresh_client\<lparr>inventory := [''P1'' \<mapsto> Integer 2]\<rparr>)) ''P1'' (Finite 3)
     = (Inr (), Some (fresh_client\<lparr>inventory := [''P1'' \<mapsto> Integer 5]\<rparr>))
   \<and> releaseStock (Some (fresh_client\<lparr>inventory := [''P1'' \<mapsto> Integer 2]\<rparr>)) ''P2'' (Finite 3)
     = (Inr (), Some (fresh_client\<lparr>inventory := [''P1'' \<mapsto> Integer 2]\<rparr>))
   \<and> fst (getInventory
          (snd (releaseStock (Some (fresh_client\<lparr>inventory := [''P1'' \<mapsto> Integer 2]\<rparr>))
                  ''P2'' (Finite 3))) ''P1'')
     = Inr (Some (Finite 2))"
proof -
  let ?db = "fresh_client\<lparr>inventory := [''P1'' \<mapsto> Integer 2]\<rparr>"
  have q: "(0::int) \<le> 3" "safe_integer 3"
    by (simp_all add: safe_integer_def MAX_SAFE_INTEGER_def)
  have ok: "\<not> rejects ?db Inventory" by (simp add: fresh_client_def)
  note inc1 = releaseStock_unconditional_increment [OF q ok, of "''P1''"]
  note inc2 = releaseStock_unconditional_increment [OF q ok, of "''P2''"]
  have row: "inventory ?db ''P1'' = Some (Integer 2) \<and> safe_integer 2 \<and> safe_integer (2 + 3)"
    and no_row: "inventory ?db ''P2'' = None"
    by (simp_all add: safe_integer_def MAX_SAFE_INTEGER_def)
  from inc1 [THEN conjunct1, rule_format, OF row]
  have 1: "releaseStock (Some ?db) ''P1'' (Finite 3)
      = (Inr (), Some (fresh_client\<lparr>inventory := [''P1'' \<mapsto> Integer 5]\<rparr>))"
    by simp
  from inc2 [THEN conjunct2, THEN conjunct1, rule_format, OF no_row]
  have 2: "releaseStock (Some ?db) ''P2'' (Finite 3) = (Inr (), Some ?db)" by simp
  have ne: "''P1'' \<noteq> ''P2''" by simp
  from inc2 [THEN conjunct2, THEN conjunct2, rule_format, OF ne]
  have 3: "fst (getInventory (snd (releaseStock (Some ?db) ''P2'' (Finite 3))) ''P1'')
      = Inr (Some (Finite 2))"
    by (simp add: getInventory_accepted fresh_client_def safe_integer_def MAX_SAFE_INTEGER_def)
  show ?thesis
    by (intro conjI) (rule 1, rule 2, rule 3)
qed



section \<open>Checkout sessions\<close>











section \<open>Idempotency records\<close>





section \<open>Orders and the audit log\<close>

lemma logRequest_accepted:
  "\<not> rejects db Request_logs \<Longrightarrow> bind_value (or_null c) = Inr b \<Longrightarrow> stringify JSON pl = Some t \<Longrightarrow>
   logRequest JSON (Some db) m u c pl =
     (Inr (), Some (db\<lparr>request_logs := request_logs db @
        [\<lparr>http_method = m, url = u, checkout_id = b, payload = t\<rparr>]\<rparr>))"
  by (simp add: logRequest_def getTransactionsDb_def execute_def sql_insert_request_log_def)

lemma logRequest_rejected:
  "rejects db Request_logs \<Longrightarrow> bind_value (or_null c) = Inr b \<Longrightarrow> stringify JSON pl = Some t \<Longrightarrow>
   logRequest JSON (Some db) m u c pl = (Inl (ExecuteRejected Request_logs), Some db)"
  by (simp add: logRequest_def getTransactionsDb_def execute_def)

lemma logRequest_unbindable:
  "bind_value (or_null c) = Inl e \<Longrightarrow> logRequest JSON (Some db) m u c pl = (Inl e, Some db)"
  by (simp add: logRequest_def getTransactionsDb_def)

lemma logRequest_failure:
  "fst (logRequest JSON tc m u c pl) = Inl e \<Longrightarrow> logRequest JSON tc m u c pl = (Inl e, tc)"
  by (auto simp: logRequest_def getTransactionsDb_def execute_def sql_insert_request_log_def
      split: option.splits sum.splits if_splits)

lemma logRequest_success:
  assumes "fst (logRequest JSON tc m u c pl) = Inr ()"
  obtains db entry where "tc = Some db"
    and "logRequest JSON tc m u c pl = (Inr (), Some (db\<lparr>request_logs := request_logs db @ [entry]\<rparr>))"
  using assms
  by (auto simp: logRequest_def getTransactionsDb_def execute_def sql_insert_request_log_def
      split: option.splits sum.splits if_splits)

lemma getOrder_accepted:
  "\<not> rejects db Orders \<Longrightarrow>
   getOrder JSON (Some db) oid =
     (Inr (case orders db oid of None \<Rightarrow> None | Some d \<Rightarrow> parse JSON d), Some db)"
  by (simp add: getOrder_def getTransactionsDb_def execute_def sql_select_order_data_def
      split: option.split)

lemma getOrder_rejected:
  "rejects db Orders \<Longrightarrow> getOrder JSON (Some db) oid = (Inl (ExecuteRejected Orders), Some db)"
  by (simp add: getOrder_def getTransactionsDb_def execute_def)

lemma getOrder_logged:
  "getOrder JSON (Some (db\<lparr>request_logs := l\<rparr>)) oid
     = (fst (getOrder JSON (Some db) oid), Some (db\<lparr>request_logs := l\<rparr>))"
  by (cases "rejects db Orders") (simp_all add: getOrder_accepted getOrder_rejected)


lemma saveOrder_logged:
  "fst (saveOrder JSON (Some (db\<lparr>request_logs := l\<rparr>)) oid obj) = fst (saveOrder JSON (Some db) oid obj)"
  by (simp add: saveOrder_def getTransactionsDb_def execute_def sql_upsert_order_def
      split: option.splits)

lemma saveOrder_failure:
  "fst (saveOrder JSON tc oid obj) = Inl e \<Longrightarrow> snd (saveOrder JSON tc oid obj) = tc"
  by (auto simp: saveOrder_def getTransactionsDb_def execute_def sql_upsert_order_def
      split: option.splits sum.splits if_splits)


lemma updateOrder_keeps_orders_without_row:
  assumes "orders db ident = None"
  shows "map_option orders (snd (OrderService_updateOrder JSON (Some db) ident updateRequest))
      = Some (orders db)"
proof (cases "read_checkout_id updateRequest")
  case (Inl e)
  then show ?thesis by (simp add: OrderService_updateOrder_def)
next
  case (Inr c)
  show ?thesis
  proof (cases "fst (logRequest JSON (Some db) ''PUT'' (''/orders/'' @ ident) c updateRequest)")
    case (Inl e)
    from logRequest_failure [OF this] Inr show ?thesis
      by (simp add: OrderService_updateOrder_def)
  next
    case (Inr u)
    then have "fst (logRequest JSON (Some db) ''PUT'' (''/orders/'' @ ident) c updateRequest) = Inr ()"
      by simp
    then obtain db0 entry where "Some db = Some db0"
      and run: "logRequest JSON (Some db) ''PUT'' (''/orders/'' @ ident) c updateRequest
        = (Inr (), Some (db0\<lparr>request_logs := request_logs db0 @ [entry]\<rparr>))"
      by (rule logRequest_success)
    then have db0: "db0 = db" by simp
    show ?thesis
    proof (cases "rejects db Orders")
      case True
      with \<open>read_checkout_id updateRequest = Inr c\<close> run db0 show ?thesis
        by (simp add: OrderService_updateOrder_def getOrder_rejected)
    next
      case False
      with \<open>read_checkout_id updateRequest = Inr c\<close> run db0 assms show ?thesis
        by (simp add: OrderService_updateOrder_def getOrder_accepted)
    qed
  qed
qed

text \<open>
  Claim C6 as stated fails: \<^verbatim>\<open>updateOrder\<close> writes the audit entry before it looks the
  order up. For the unknown order \<open>o2\<close> and a body whose \<open>checkout_id\<close> is an object the
  client cannot bind that argument, and the request fails with a TypeError, not with the
  not-found answer.
\<close>

theorem updateOrder_missing_order_counterexample:
  "orders order_client ''o2'' = None
   \<and> fst (OrderService_updateOrder compact_JSON (Some order_client) ''o2'' order_update_unbindable)
       = Inl TypeError
   \<and> fst (OrderService_updateOrder compact_JSON (Some order_client) ''o2'' order_update_unbindable)
       \<noteq> Inr order_not_found"
  by (simp add: OrderService_updateOrder_def order_update_unbindable_def get_property_def
      logRequest_unbindable or_null_def order_client_def fresh_client_def)

text \<open>
  Claim C6, amended. For an identifier without a row in \<^verbatim>\<open>orders\<close>, \<^verbatim>\<open>updateOrder\<close>
  leaves the table \<^verbatim>\<open>orders\<close> unchanged whatever the body is and however the request
  ends; and it answers 404 with \<^verbatim>\<open>{ error: 'Order not found' }\<close> whenever the body has a
  \<open>checkout_id\<close> to read, the audit write succeeded and the storage accepts the lookup.
\<close>

theorem updateOrder_missing_order:
  assumes "orders db ident = None"
  shows "map_option orders (snd (OrderService_updateOrder JSON (Some db) ident updateRequest))
           = Some (orders db)
       \<and> (\<forall>c. read_checkout_id updateRequest = Inr c
              \<and> fst (logRequest JSON (Some db) ''PUT'' (''/orders/'' @ ident) c updateRequest) = Inr ()
              \<and> \<not> rejects db Orders \<longrightarrow>
            fst (OrderService_updateOrder JSON (Some db) ident updateRequest)
              = Inr \<lparr>code = 404, body = JObject [(''error'', JString ''Order not found'')]\<rparr>)"
proof (intro conjI allI impI)
  show "map_option orders (snd (OrderService_updateOrder JSON (Some db) ident updateRequest))
      = Some (orders db)"
    using assms by (rule updateOrder_keeps_orders_without_row)
next
  fix c
  assume h: "read_checkout_id updateRequest = Inr c
      \<and> fst (logRequest JSON (Some db) ''PUT'' (''/orders/'' @ ident) c updateRequest) = Inr ()
      \<and> \<not> rejects db Orders"
  then have "fst (logRequest JSON (Some db) ''PUT'' (''/orders/'' @ ident) c updateRequest) = Inr ()"
    by simp
  then obtain db0 entry where "Some db = Some db0"
    and run: "logRequest JSON (Some db) ''PUT'' (''/orders/'' @ ident) c updateRequest
      = (Inr (), Some (db0\<lparr>request_logs := request_logs db0 @ [entry]\<rparr>))"
    by (rule logRequest_success)
  then have "db0 = db" by simp
  with h run assms
  show "fst (OrderService_updateOrder JSON (Some db) ident updateRequest)
      = Inr \<lparr>code = 404, body = JObject [(''error'', JString ''Order not found'')]\<rparr>"
    by (simp add: OrderService_updateOrder_def getOrder_accepted order_not_found_def)
qed

lemma order_client_accepts: "\<not> rejects order_client t"
  by (simp add: order_client_def fresh_client_def)

lemma order_client_row: "orders order_client ''o1'' = Some (json_text order_placed)"
  by (simp add: order_client_def)

lemma order_update_checkout_id: "read_checkout_id order_update = Inr (JString ''C1'')"
  by (simp add: order_update_def get_property_def)

lemma order_update_text: "stringify compact_JSON order_update = Some (json_text order_update)"
  by (simp add: compact_JSON_def json_stringify_def order_update_def)

lemma order_update_logged:
  "fst (logRequest compact_JSON (Some order_client) ''PUT'' (''/orders/'' @ ident)
          (JString ''C1'') order_update) = Inr ()"
  by (simp add: logRequest_accepted [OF order_client_accepts _ order_update_text] or_null_def)

text \<open>C6, amended, on an update of the unknown order \<open>o2\<close>.\<close>

theorem updateOrder_missing_order_witness:
  "fst (OrderService_updateOrder compact_JSON (Some order_client) ''o2'' order_update)
     = Inr \<lparr>code = 404, body = JObject [(''error'', JString ''Order not found'')]\<rparr>
   \<and> map_option orders (snd (OrderService_updateOrder compact_JSON (Some order_client) ''o2'' order_update))
     = Some (orders order_client)"
proof -
  have none: "orders order_client ''o2'' = None" by (simp add: order_client_def fresh_client_def)
  note missing = updateOrder_missing_order [OF none, of compact_JSON order_update]
  have h: "read_checkout_id order_update = Inr (JString ''C1'')
      \<and> fst (logRequest compact_JSON (Some order_client) ''PUT'' (''/orders/'' @ ''o2'')
               (JString ''C1'') order_update) = Inr ()
      \<and> \<not> rejects order_client Orders"
    using order_update_checkout_id order_update_logged order_client_accepts by simp
  show ?thesis
    by (intro conjI) (rule missing [THEN conjunct2, rule_format, OF h], rule missing [THEN conjunct1])
qed



lemma order_placed_round_trip:
  "parse compact_JSON (json_text order_placed) = Some order_placed"
  unfolding order_placed_def compact_JSON_def JSON.select_convs by code_simp



lemma truthy_order_placed: "truthy order_placed"
  by (simp add: order_placed_def)





lemma getOrder_request_logged:
  "fst (logRequest compact_JSON (Some order_client) ''GET'' (''/orders/'' @ ident)
          JUndefined (JObject [])) = Inr ()"
  by (simp add: logRequest_accepted [OF order_client_accepts] or_null_def compact_JSON_def
      json_stringify_def)

text \<open>
  Claim C8 as stated fails: when the storage refuses the insert into \<^verbatim>\<open>request_logs\<close>,
  \<^verbatim>\<open>getOrder\<close> for the existing order \<open>o1\<close> throws instead of answering 200 with the
  order.
\<close>

theorem audit_failure_counterexample:
  "\<not> (fst (OrderService_getOrder compact_JSON (Some audit_down_client) ''o1'')
       = fst (OrderService_getOrder compact_JSON (Some order_client) ''o1''))"
proof -
  have down: "rejects audit_down_client Request_logs"
    by (simp add: audit_down_client_def)
  have "logRequest compact_JSON (Some audit_down_client) ''GET'' (''/orders/'' @ ''o1'')
          JUndefined (JObject []) = (Inl (ExecuteRejected Request_logs), Some audit_down_client)"
    by (rule logRequest_rejected [OF down])
       (simp_all add: or_null_def compact_JSON_def json_stringify_def)
  then have failed: "fst (OrderService_getOrder compact_JSON (Some audit_down_client) ''o1'')
      = Inl (ExecuteRejected Request_logs)"
    by (simp add: OrderService_getOrder_def)
  have "logRequest compact_JSON (Some order_client) ''GET'' (''/orders/'' @ ''o1'')
          JUndefined (JObject [])
      = (Inr (), Some (order_client\<lparr>request_logs := request_logs order_client @
          [\<lparr>http_method = ''GET'', url = ''/orders/'' @ ''o1'', checkout_id = Bound_null,
            payload = json_text (JObject [])\<rparr>]\<rparr>))"
    by (rule logRequest_accepted [OF order_client_accepts])
       (simp_all add: or_null_def compact_JSON_def json_stringify_def)
  then have served: "fst (OrderService_getOrder compact_JSON (Some order_client) ''o1'')
      = Inr \<lparr>code = 200, body = order_placed\<rparr>"
    by (simp add: OrderService_getOrder_def getOrder_accepted
        order_client_accepts order_client_row order_placed_round_trip truthy_order_placed)
  from failed served show ?thesis by simp
qed

text \<open>
  Claim C8, amended. \<^verbatim>\<open>getOrder\<close> and \<^verbatim>\<open>updateOrder\<close> await \<^verbatim>\<open>logRequest\<close> first
  and do not catch its failure: when the audit write fails, whatever the cause, the operation
  fails with that error and the storage is left untouched; when it succeeds the operation
  returns the result of the lookup (and, for \<^verbatim>\<open>updateOrder\<close>, of the assignment of the
  \<open>id\<close> and of the save) on the orders.
\<close>

theorem audit_failure_propagates:
  "(fst (logRequest JSON tc ''GET'' (''/orders/'' @ ident) JUndefined (JObject [])) = Inl e \<longrightarrow>
      OrderService_getOrder JSON tc ident = (Inl e, tc))
 \<and> (read_checkout_id updateRequest = Inr c
      \<and> fst (logRequest JSON tc ''PUT'' (''/orders/'' @ ident) c updateRequest) = Inl e \<longrightarrow>
      OrderService_updateOrder JSON tc ident updateRequest = (Inl e, tc))
 \<and> (fst (logRequest JSON tc ''GET'' (''/orders/'' @ ident) JUndefined (JObject [])) = Inr () \<longrightarrow>
      fst (OrderService_getOrder JSON tc ident)
        = (case fst (getOrder JSON tc ident) of
             Inl e' \<Rightarrow> Inl e'
           | Inr None \<Rightarrow> Inr order_not_found
           | Inr (Some v) \<Rightarrow>
               if truthy v then Inr \<lparr>code = 200, body = v\<rparr> else Inr order_not_found))
 \<and> (read_checkout_id updateRequest = Inr c
      \<and> fst (logRequest JSON tc ''PUT'' (''/orders/'' @ ident) c updateRequest) = Inr () \<longrightarrow>
      fst (OrderService_updateOrder JSON tc ident updateRequest)
        = (case fst (getOrder JSON tc ident) of
             Inl e' \<Rightarrow> Inl e'
           | Inr existing \<Rightarrow>
               if (case existing of None \<Rightarrow> True | Some v \<Rightarrow> \<not> truthy v)
               then Inr order_not_found
               else (case assign_id updateRequest ident of
                       Inl e' \<Rightarrow> Inl e'
                     | Inr updateRequest' \<Rightarrow>
                         (case fst (saveOrder JSON tc ident updateRequest') of
                            Inl e' \<Rightarrow> Inl e'
                          | Inr u \<Rightarrow> Inr \<lparr>code = 200, body = updateRequest'\<rparr>))))"
proof (intro conjI impI)
  assume "fst (logRequest JSON tc ''GET'' (''/orders/'' @ ident) JUndefined (JObject [])) = Inl e"
  then have "logRequest JSON tc ''GET'' (''/orders/'' @ ident) JUndefined (JObject []) = (Inl e, tc)"
    by (rule logRequest_failure)
  then show "OrderService_getOrder JSON tc ident = (Inl e, tc)"
    by (simp add: OrderService_getOrder_def)
next
  assume h: "read_checkout_id updateRequest = Inr c
      \<and> fst (logRequest JSON tc ''PUT'' (''/orders/'' @ ident) c updateRequest) = Inl e"
  then have "logRequest JSON tc ''PUT'' (''/orders/'' @ ident) c updateRequest = (Inl e, tc)"
    by (simp add: logRequest_failure)
  with h show "OrderService_updateOrder JSON tc ident updateRequest = (Inl e, tc)"
    by (simp add: OrderService_updateOrder_def)
next
  assume "fst (logRequest JSON tc ''GET'' (''/orders/'' @ ident) JUndefined (JObject [])) = Inr ()"
  then obtain db entry where tc: "tc = Some db"
    and lg: "logRequest JSON tc ''GET'' (''/orders/'' @ ident) JUndefined (JObject [])
      = (Inr (), Some (db\<lparr>request_logs := request_logs db @ [entry]\<rparr>))"
    by (rule logRequest_success)
  show "fst (OrderService_getOrder JSON tc ident)
        = (case fst (getOrder JSON tc ident) of
             Inl e' \<Rightarrow> Inl e'
           | Inr None \<Rightarrow> Inr order_not_found
           | Inr (Some v) \<Rightarrow>
               if truthy v then Inr \<lparr>code = 200, body = v\<rparr> else Inr order_not_found)"
    using lg unfolding tc
    by (simp add: OrderService_getOrder_def getOrder_logged split: sum.split option.split)
next
  assume h: "read_checkout_id updateRequest = Inr c
      \<and> fst (logRequest JSON tc ''PUT'' (''/orders/'' @ ident) c updateRequest) = Inr ()"
  then have "fst (logRequest JSON tc ''PUT'' (''/orders/'' @ ident) c updateRequest) = Inr ()"
    by simp
  then obtain db entry where tc: "tc = Some db"
    and lg: "logRequest JSON tc ''PUT'' (''/orders/'' @ ident) c updateRequest
      = (Inr (), Some (db\<lparr>request_logs := request_logs db @ [entry]\<rparr>))"
    by (rule logRequest_success)
  have sv: "\<And>l obj. (case saveOrder JSON (Some (db\<lparr>request_logs := l\<rparr>)) ident obj of
                (Inl e', tc3) \<Rightarrow> (Inl e', tc3)
              | (Inr u', tc3) \<Rightarrow> (Inr \<lparr>code = 200, body = obj\<rparr>, tc3))
         = (case fst (saveOrder JSON (Some db) ident obj) of
              Inl e' \<Rightarrow> Inl e' | Inr u \<Rightarrow> Inr \<lparr>code = 200, body = obj\<rparr>,
            snd (saveOrder JSON (Some (db\<lparr>request_logs := l\<rparr>)) ident obj))"
  proof -
    fix l obj
    show "(case saveOrder JSON (Some (db\<lparr>request_logs := l\<rparr>)) ident obj of
                (Inl e', tc3) \<Rightarrow> (Inl e', tc3)
              | (Inr u', tc3) \<Rightarrow> (Inr \<lparr>code = 200, body = obj\<rparr>, tc3))
         = (case fst (saveOrder JSON (Some db) ident obj) of
              Inl e' \<Rightarrow> Inl e' | Inr u \<Rightarrow> Inr \<lparr>code = 200, body = obj\<rparr>,
            snd (saveOrder JSON (Some (db\<lparr>request_logs := l\<rparr>)) ident obj))"
      using saveOrder_logged [where JSON = JSON and db = db and l = l and oid = ident and obj = obj]
      by (cases "saveOrder JSON (Some (db\<lparr>request_logs := l\<rparr>)) ident obj")
         (auto split: sum.split)
  qed
  show "fst (OrderService_updateOrder JSON tc ident updateRequest)
        = (case fst (getOrder JSON tc ident) of
             Inl e' \<Rightarrow> Inl e'
           | Inr existing \<Rightarrow>
               if (case existing of None \<Rightarrow> True | Some v \<Rightarrow> \<not> truthy v)
               then Inr order_not_found
               else (case assign_id updateRequest ident of
                       Inl e' \<Rightarrow> Inl e'
                     | Inr updateRequest' \<Rightarrow>
                         (case fst (saveOrder JSON tc ident updateRequest') of
                            Inl e' \<Rightarrow> Inl e'
                          | Inr u \<Rightarrow> Inr \<lparr>code = 200, body = updateRequest'\<rparr>)))"
    using lg h unfolding tc
    by (simp add: OrderService_updateOrder_def getOrder_logged sv split: sum.split option.split)
qed

text \<open>
  C8, amended, with the audit log down, with a \<open>checkout_id\<close> that cannot be bound, and
  with the audit log up.
\<close>

theorem audit_failure_propagates_witness:
  "OrderService_getOrder compact_JSON (Some audit_down_client) ''o1''
     = (Inl (ExecuteRejected Request_logs), Some audit_down_client)
   \<and> OrderService_updateOrder compact_JSON (Some audit_down_client) ''o1'' order_update
     = (Inl (ExecuteRejected Request_logs), Some audit_down_client)
   \<and> OrderService_updateOrder compact_JSON (Some order_client) ''o1'' order_update_unbindable
     = (Inl TypeError, Some order_client)
   \<and> fst (OrderService_getOrder compact_JSON (Some order_client) ''o1'')
     = Inr \<lparr>code = 200, body = order_placed\<rparr>
   \<and> fst (OrderService_updateOrder compact_JSON (Some order_client) ''o2'' order_update)
     = Inr order_not_found"
proof -
  have down: "rejects audit_down_client Request_logs"
    by (simp add: audit_down_client_def)
  have g: "fst (logRequest compact_JSON (Some audit_down_client) ''GET'' (''/orders/'' @ ''o1'')
          JUndefined (JObject [])) = Inl (ExecuteRejected Request_logs)"
    by (simp add: logRequest_rejected [OF down] or_null_def compact_JSON_def json_stringify_def)
  have p: "read_checkout_id order_update = Inr (JString ''C1'')
      \<and> fst (logRequest compact_JSON (Some audit_down_client) ''PUT'' (''/orders/'' @ ''o1'')
          (JString ''C1'') order_update) = Inl (ExecuteRejected Request_logs)"
    by (simp add: logRequest_rejected [OF down _ order_update_text] or_null_def
        order_update_checkout_id)
  have u: "read_checkout_id order_update_unbindable = Inr (JObject [(''a'', JNumber 1)])
      \<and> fst (logRequest compact_JSON (Some order_client) ''PUT'' (''/orders/'' @ ''o1'')
          (JObject [(''a'', JNumber 1)]) order_update_unbindable) = Inl TypeError"
    by (simp add: order_update_unbindable_def get_property_def logRequest_unbindable or_null_def)
  have s: "read_checkout_id order_update = Inr (JString ''C1'')
      \<and> fst (logRequest compact_JSON (Some order_client) ''PUT'' (''/orders/'' @ ''o2'')
          (JString ''C1'') order_update) = Inr ()"
    using order_update_checkout_id order_update_logged [of "''o2''"] by simp
  note 1 = audit_failure_propagates [THEN conjunct1, rule_format, OF g]
  note 2 = audit_failure_propagates [THEN conjunct2, THEN conjunct1, rule_format, OF p]
  note 3 = audit_failure_propagates [THEN conjunct2, THEN conjunct1, rule_format, OF u]
  from audit_failure_propagates [THEN conjunct2, THEN conjunct2, THEN conjunct1, rule_format,
      OF getOrder_request_logged [of "''o1''"]]
  have 4: "fst (OrderService_getOrder compact_JSON (Some order_client) ''o1'')
     = Inr \<lparr>code = 200, body = order_placed\<rparr>"
    by (simp add: getOrder_accepted order_client_accepts order_client_row order_placed_round_trip
        truthy_order_placed)
  have none: "orders order_client ''o2'' = None" by (simp add: order_client_def fresh_client_def)
  from audit_failure_propagates [THEN conjunct2, THEN conjunct2, THEN conjunct2, rule_format, OF s]
  have 5: "fst (OrderService_updateOrder compact_JSON (Some order_client) ''o2'' order_update)
     = Inr order_not_found"
    by (simp add: getOrder_accepted order_client_accepts none)
  show ?thesis
    by (intro conjI) (rule 1, rule 2, rule 3, rule 4, rule 5)
qed

end
